theory Spec2Isabelle
  imports
    Main
    "HOL-Library.Char_ord"
    "HOL-Library.List_Lexorder"
    "HOL-Library.Option_ord"
    "HOL-Library.Multiset"
begin

section \<open>JavaScript and SQLite primitives used by the handlers\<close>

text \<open>
  A JSON value. Strings are sequences of 8-bit characters; their order is the byte-wise
  order SQLite's BINARY collation uses. A number is kept as an integer: the handlers read
  of a number only whether it is zero.
\<close>

datatype json =
    JNull
  | JBoolean bool
  | JNumber int
  | JString string
  | JArray "json list"
  | JObject "(string \<times> json) list"

text \<open>
  A property read from an object is \<open>undefined\<close> (\<open>None\<close>) or a JSON value. \<open>falsy\<close> is
  JavaScript's \<open>!x\<close>, \<open>typeof_string\<close> is \<open>typeof x === 'string'\<close>, and \<open>trim_of\<close> is
  \<open>x.trim()\<close> on a value that is not \<open>undefined\<close> or \<open>null\<close>: \<open>None\<close> stands for the
  TypeError a value without that method raises.
\<close>

fun falsy :: "json option \<Rightarrow> bool" where
  "falsy None = True"
| "falsy (Some JNull) = True"
| "falsy (Some (JBoolean b)) = (\<not> b)"
| "falsy (Some (JNumber n)) = (n = 0)"
| "falsy (Some (JString s)) = (s = [])"
| "falsy (Some (JArray xs)) = False"
| "falsy (Some (JObject kvs)) = False"

fun typeof_string :: "json option \<Rightarrow> bool" where
  "typeof_string (Some (JString s)) = True"
| "typeof_string _ = False"

text \<open>
  A property of a JSON request body at the type the Task shape gives it: absent
  (\<open>undefined\<close> after destructuring), \<open>null\<close>, or a value of that type. The handlers are
  modelled on bodies whose description, dueDate, priority, tags and completed have their
  type; the title is any JSON value, since the Create handler tests its type.
\<close>

datatype 'a field = Undefined | Null | Val 'a

text \<open>JavaScript truthiness of a string property and of a boolean property.\<close>

fun truthy :: "string field \<Rightarrow> bool" where
  "truthy (Val s) = (s \<noteq> [])"
| "truthy Null = False"
| "truthy Undefined = False"

fun truthy_bool :: "bool field \<Rightarrow> bool" where
  "truthy_bool (Val b) = b"
| "truthy_bool Null = False"
| "truthy_bool Undefined = False"

text \<open>A destructuring default \<open>{ x = d }\<close> replaces \<open>undefined\<close> only.\<close>

fun default_to :: "'a field \<Rightarrow> 'a field \<Rightarrow> 'a field" where
  "default_to d Undefined = d"
| "default_to d Null = Null"
| "default_to d (Val v) = Val v"

text \<open>
  \<open>String.prototype.trim\<close>: the white space and line terminators of ECMAScript that fit
  in eight bits (TAB, LF, VT, FF, CR, SP, NBSP) are removed at both ends.
\<close>

definition is_space :: "char \<Rightarrow> bool" where
  "is_space c = (c \<in> set [CHR 0x09, CHR 0x0A, CHR 0x0B, CHR 0x0C, CHR 0x0D, CHR 0x20, CHR 0xA0])"

definition trim :: "string \<Rightarrow> string" where
  "trim s = rev (dropWhile is_space (rev (dropWhile is_space s)))"

fun trim_of :: "json option \<Rightarrow> string option" where
  "trim_of (Some (JString s)) = Some (trim s)"
| "trim_of _ = None"

text \<open>SQLite folds the letters A to Z only when it compares for \<open>LIKE\<close>.\<close>

definition to_lower :: "char \<Rightarrow> char" where
  "to_lower c =
     (if CHR ''A'' \<le> c \<and> c \<le> CHR ''Z''
      then (case c of Char b0 b1 b2 b3 b4 b5 b6 b7 \<Rightarrow> Char b0 b1 b2 b3 b4 True b6 b7)
      else c)"

text \<open>
  SQLite's \<open>LIKE\<close> (no ESCAPE clause): \<open>%\<close> in the pattern matches any run of
  characters, \<open>_\<close> matches exactly one, every other character matches itself up to the
  case of ASCII letters. The first argument is the pattern.
\<close>

fun like :: "string \<Rightarrow> string \<Rightarrow> bool" where
  "like [] [] = True"
| "like [] (c # cs) = False"
| "like (p # ps) [] = (p = CHR ''%'' \<and> like ps [])"
| "like (p # ps) (c # cs) =
     (if p = CHR ''%'' then like ps (c # cs) \<or> like (p # ps) cs
      else (p = CHR ''_'' \<or> to_lower p = to_lower c) \<and> like ps cs)"

text \<open>
  SQLite reads both operands of \<open>LIKE\<close> as C strings: each ends at its first NUL
  character.
\<close>

definition c_string :: "string \<Rightarrow> string" where
  "c_string s = takeWhile (\<lambda>c. c \<noteq> CHR 0x00) s"

definition sql_like :: "string \<Rightarrow> string \<Rightarrow> bool" where
  "sql_like p t = like (c_string p) (c_string t)"

section \<open>The tasks table\<close>

text \<open>
  One row of \<open>tasks\<close>. The \<open>completed\<close> column is an INTEGER in the table and a boolean in
  every response, hence the type parameter. The \<open>tags\<close> column holds
  \<open>JSON.stringify(tags)\<close> and every read applies \<open>JSON.parse\<close> to it; the row keeps the
  value that text encodes (\<open>None\<close> for the text \<open>null\<close>).
\<close>

record 'c task =
  task_id :: string
  title :: string
  description :: string
  dueDate :: "string option"
  priority :: string
  tags :: "string list option"
  completed :: 'c
  createdAt :: string
  updatedAt :: string

type_synonym row = "int task"
type_synonym task_json = "bool task"
type_synonym db = "row list"

text \<open>The response shape \<open>{...row, completed: Boolean(row.completed), tags: JSON.parse(row.tags)}\<close>.\<close>

definition Boolean :: "int \<Rightarrow> bool" where
  "Boolean n = (n \<noteq> 0)"

definition to_json :: "row \<Rightarrow> task_json" where
  "to_json r =
     \<lparr>task_id = task_id r, title = title r, description = description r,
      dueDate = dueDate r, priority = priority r, tags = tags r,
      completed = Boolean (completed r), createdAt = createdAt r, updatedAt = updatedAt r\<rparr>"

text \<open>\<open>SELECT * FROM tasks WHERE id = ?\<close>, read with \<open>.get\<close>.\<close>

definition select_by_id :: "db \<Rightarrow> string \<Rightarrow> row option" where
  "select_by_id d i = find (\<lambda>r. task_id r = i) d"

text \<open>\<open>UPDATE tasks SET ... WHERE id = ?\<close> and \<open>DELETE FROM tasks WHERE id = ?\<close>.\<close>

definition update_where_id :: "(row \<Rightarrow> row) \<Rightarrow> string \<Rightarrow> db \<Rightarrow> db" where
  "update_where_id f i d = map (\<lambda>r. if task_id r = i then f r else r) d"

definition delete_where_id :: "string \<Rightarrow> db \<Rightarrow> db" where
  "delete_where_id i d = filter (\<lambda>r. task_id r \<noteq> i) d"

text \<open>The number of rows a statement changed (\<open>result.changes\<close>).\<close>

definition changes :: "string \<Rightarrow> db \<Rightarrow> nat" where
  "changes i d = length (filter (\<lambda>r. task_id r = i) d)"

section \<open>Responses\<close>

text \<open>The three error responses: status 400, 404 and 500, each with its message.\<close>

datatype error = Bad_Request string | Not_Found string | Internal string

fun is_validation_error :: "error + 'a \<Rightarrow> bool" where
  "is_validation_error (Inl (Bad_Request m)) = True"
| "is_validation_error _ = False"

fun is_not_found :: "error + 'a \<Rightarrow> bool" where
  "is_not_found (Inl (Not_Found m)) = True"
| "is_not_found _ = False"

section \<open>Request bodies\<close>

record body =
  b_title :: "json option"
  b_description :: "string field"
  b_dueDate :: "string field"
  b_priority :: "string field"
  b_tags :: "string list field"
  b_completed :: "bool field"

definition priorities :: "string list" where
  "priorities = [''low'', ''medium'', ''high'']"

text \<open>\<open>['low', 'medium', 'high'].includes(priority)\<close>\<close>

fun includes_priority :: "string field \<Rightarrow> bool" where
  "includes_priority (Val p) = (p \<in> set priorities)"
| "includes_priority Null = False"
| "includes_priority Undefined = False"

text \<open>
  The title test of Create, \<open>!title || typeof title !== 'string' || title.trim() === ''\<close>.
\<close>

definition title_rejected :: "json option \<Rightarrow> bool" where
  "title_rejected t = (falsy t \<or> \<not> typeof_string t \<or> trim_of t = Some [])"

text \<open>
  \<open>Date.parse\<close> is the engine's; the handlers take it as \<open>Date_parse\<close>, with \<open>None\<close>
  for NaN.
\<close>

type_synonym date_parse = "string \<Rightarrow> int option"

definition isNaN :: "int option \<Rightarrow> bool" where
  "isNaN x = (x = None)"

section \<open>POST /api/tasks\<close>

text \<open>
  \<open>uuid\<close> is the value of \<open>randomUUID()\<close> and \<open>now\<close> that of
  \<open>new Date().toISOString()\<close>. A description that is not a string makes
  \<open>description.trim()\<close> throw, and an id already in the table violates the primary key:
  both end in the handler's \<open>catch\<close>.
\<close>

fun field_option :: "'a field \<Rightarrow> 'a option" where
  "field_option (Val v) = Some v"
| "field_option Null = None"
| "field_option Undefined = None"

definition post_task :: "date_parse \<Rightarrow> string \<Rightarrow> string \<Rightarrow> body \<Rightarrow> db \<Rightarrow> (error + task_json) \<times> db" where
  "post_task Date_parse uuid now b d =
     (let title = b_title b;
          description = default_to (Val []) (b_description b);
          dueDate = default_to Null (b_dueDate b);
          priority = default_to (Val ''medium'') (b_priority b);
          tags = default_to (Val []) (b_tags b)
      in if title_rejected title
         then (Inl (Bad_Request ''Task title is required and cannot be empty''), d)
         else if \<not> includes_priority priority
         then (Inl (Bad_Request ''Priority must be low, medium, or high''), d)
         else if truthy dueDate \<and> (case dueDate of Val s \<Rightarrow> isNaN (Date_parse s) | _ \<Rightarrow> False)
         then (Inl (Bad_Request ''Invalid due date format''), d)
         else (case (trim_of title, description, priority) of
                 (Some trimmed, Val ds, Val p) \<Rightarrow>
                   if uuid \<in> task_id ` set d
                   then (Inl (Internal ''Failed to create task''), d)
                   else
                     (let d' = d @ [\<lparr>task_id = uuid, title = trimmed, description = trim ds,
                                     dueDate = field_option dueDate, priority = p,
                                     tags = field_option tags, completed = 0,
                                     createdAt = now, updatedAt = now\<rparr>]
                      in case select_by_id d' uuid of
                           Some newTask \<Rightarrow> (Inr (to_json newTask), d')
                         | None \<Rightarrow> (Inl (Internal ''Failed to create task''), d'))
               | _ \<Rightarrow> (Inl (Internal ''Failed to create task''), d)))"

section \<open>PUT /api/tasks/:id\<close>

text \<open>
  The SET list the handler builds: a column is assigned exactly when its property is not
  \<open>undefined\<close>, and \<open>updatedAt\<close> always. The handler comes here only with a title that is
  \<open>undefined\<close> or a string, and with a description that is not \<open>null\<close>.
\<close>

definition set_columns :: "body \<Rightarrow> string \<Rightarrow> row \<Rightarrow> row" where
  "set_columns b now r =
     r\<lparr>title := (case trim_of (b_title b) of Some trimmed \<Rightarrow> trimmed | None \<Rightarrow> title r),
       description := (case b_description b of Val ds \<Rightarrow> trim ds | _ \<Rightarrow> description r),
       dueDate := (case b_dueDate b of Undefined \<Rightarrow> dueDate r | Null \<Rightarrow> None | Val s \<Rightarrow> Some s),
       priority := (case b_priority b of Val p \<Rightarrow> p | _ \<Rightarrow> priority r),
       tags := (case b_tags b of Undefined \<Rightarrow> tags r | Null \<Rightarrow> None | Val ts \<Rightarrow> Some ts),
       completed := (case b_completed b of Undefined \<Rightarrow> completed r
                     | _ \<Rightarrow> if truthy_bool (b_completed b) then 1 else 0),
       updatedAt := now\<rparr>"

definition put_task :: "date_parse \<Rightarrow> string \<Rightarrow> string \<Rightarrow> body \<Rightarrow> db \<Rightarrow> (error + task_json) \<times> db" where
  "put_task Date_parse now i b d =
     (case select_by_id d i of
        None \<Rightarrow> (Inl (Not_Found ''Task not found''), d)
      | Some existingTask \<Rightarrow>
          if b_title b \<noteq> None \<and> falsy (b_title b)
          then (Inl (Bad_Request ''Task title cannot be empty''), d)
          else if b_title b \<noteq> None \<and> trim_of (b_title b) = None
          then (Inl (Internal ''Failed to update task''), d)
          else if b_title b \<noteq> None \<and> trim_of (b_title b) = Some []
          then (Inl (Bad_Request ''Task title cannot be empty''), d)
          else if b_priority b \<noteq> Undefined \<and> \<not> includes_priority (b_priority b)
          then (Inl (Bad_Request ''Priority must be low, medium, or high''), d)
          else if (case b_dueDate b of Val s \<Rightarrow> isNaN (Date_parse s) | _ \<Rightarrow> False)
          then (Inl (Bad_Request ''Invalid due date format''), d)
          else if b_description b = Null
          then (Inl (Internal ''Failed to update task''), d)
          else
            (let d' = update_where_id (set_columns b now) i d
             in case select_by_id d' i of
                  Some updatedTask \<Rightarrow> (Inr (to_json updatedTask), d')
                | None \<Rightarrow> (Inl (Internal ''Failed to update task''), d')))"

section \<open>PATCH /api/tasks/:id/toggle\<close>


section \<open>DELETE /api/tasks/:id\<close>

text \<open>The success response carries the id that was deleted.\<close>

definition delete_task :: "string \<Rightarrow> db \<Rightarrow> (error + string) \<times> db" where
  "delete_task i d =
     (case select_by_id d i of
        None \<Rightarrow> (Inl (Not_Found ''Task not found''), d)
      | Some existingTask \<Rightarrow>
          if changes i d > 0
          then (Inr i, delete_where_id i d)
          else (Inl (Not_Found ''Task not found''), delete_where_id i d))"

section \<open>POST /api/tasks/bulk\<close>

record bulk_body =
  b_action :: "string field"
  b_taskIds :: "string list field"

text \<open>
  The two success responses, \<open>{ message: `N tasks updated`, count: N }\<close> and
  \<open>{ message: `N tasks deleted`, count: N }\<close>.
\<close>

datatype bulk_response = Tasks_Updated nat | Tasks_Deleted nat

fun count :: "bulk_response \<Rightarrow> nat" where
  "count (Tasks_Updated n) = n"
| "count (Tasks_Deleted n) = n"

text \<open>\<open>taskIds.forEach(id => updateStmt.run(...))\<close>: one statement per listed id, in order.\<close>

definition for_each :: "(string \<Rightarrow> db \<Rightarrow> db) \<Rightarrow> string list \<Rightarrow> db \<Rightarrow> db" where
  "for_each run taskIds d = foldl (\<lambda>d' i. run i d') d taskIds"

definition set_completed :: "int \<Rightarrow> string \<Rightarrow> row \<Rightarrow> row" where
  "set_completed c now r = r\<lparr>completed := c, updatedAt := now\<rparr>"

definition bulk_task :: "string \<Rightarrow> bulk_body \<Rightarrow> db \<Rightarrow> (error + bulk_response) \<times> db" where
  "bulk_task now b d =
     (case b_taskIds b of
        Val taskIds \<Rightarrow>
          if taskIds = []
          then (Inl (Bad_Request ''taskIds must be a non-empty array''), d)
          else if b_action b = Val ''complete''
          then (Inr (Tasks_Updated (length taskIds)),
                for_each (update_where_id (set_completed 1 now)) taskIds d)
          else if b_action b = Val ''uncomplete''
          then (Inr (Tasks_Updated (length taskIds)),
                for_each (update_where_id (set_completed 0 now)) taskIds d)
          else if b_action b = Val ''delete''
          then (Inr (Tasks_Deleted (length taskIds)), for_each delete_where_id taskIds d)
          else (Inl (Bad_Request ''Invalid action. Must be complete, uncomplete, or delete''), d)
      | _ \<Rightarrow> (Inl (Bad_Request ''taskIds must be a non-empty array''), d))"

section \<open>GET /api/tasks\<close>

text \<open>A query parameter is absent or a string.\<close>

record query =
  q_status :: "string option"
  q_priority :: "string option"
  q_search :: "string option"
  q_sortBy :: "string option"

text \<open>The WHERE clause the handler assembles; an empty parameter is falsy and adds nothing.\<close>

definition where_clause :: "query \<Rightarrow> row \<Rightarrow> bool" where
  "where_clause q r =
     ((if q_status q = Some ''active'' then completed r = 0
       else if q_status q = Some ''completed'' then completed r = 1
       else True)
      \<and> (case q_priority q of
            Some p \<Rightarrow> if p \<noteq> [] then priority r = p else True
          | None \<Rightarrow> True)
      \<and> (case q_search q of
            Some s \<Rightarrow>
              if s \<noteq> []
              then sql_like (''%'' @ s @ ''%'') (title r) \<or> sql_like (''%'' @ s @ ''%'') (description r)
              else True
          | None \<Rightarrow> True))"

text \<open>The ORDER BY terms. In SQLite NULL sorts before every value when ascending.\<close>

definition dueDate_is_null :: "row \<Rightarrow> nat" where
  "dueDate_is_null r = (if dueDate r = None then 1 else 0)"

definition priority_rank :: "'c task \<Rightarrow> nat option" where
  "priority_rank r =
     (if priority r = ''high'' then Some 1
      else if priority r = ''medium'' then Some 2
      else if priority r = ''low'' then Some 3
      else None)"

definition by_dueDate :: "row \<Rightarrow> row \<Rightarrow> bool" where
  "by_dueDate a b =
     (dueDate_is_null a < dueDate_is_null b
      \<or> (dueDate_is_null a = dueDate_is_null b \<and> dueDate a \<le> dueDate b))"

definition by_priority :: "row \<Rightarrow> row \<Rightarrow> bool" where
  "by_priority a b = (priority_rank a \<le> priority_rank b)"

definition by_createdAt :: "row \<Rightarrow> row \<Rightarrow> bool" where
  "by_createdAt a b = (createdAt b \<le> createdAt a)"

definition by_default :: "row \<Rightarrow> row \<Rightarrow> bool" where
  "by_default a b =
     (dueDate_is_null a < dueDate_is_null b
      \<or> (dueDate_is_null a = dueDate_is_null b
          \<and> (dueDate a < dueDate b
              \<or> (dueDate a = dueDate b
                  \<and> (priority_rank a < priority_rank b
                      \<or> (priority_rank a = priority_rank b \<and> createdAt b \<le> createdAt a))))))"

definition order_by :: "string option \<Rightarrow> row \<Rightarrow> row \<Rightarrow> bool" where
  "order_by sb =
     (let sortBy = (case sb of None \<Rightarrow> ''default'' | Some s \<Rightarrow> s)
      in if sortBy = ''dueDate'' then by_dueDate
         else if sortBy = ''priority'' then by_priority
         else if sortBy = ''createdAt'' then by_createdAt
         else by_default)"

text \<open>
  The sort the engine runs for ORDER BY, as an insertion sort. SQLite leaves the order of
  rows with equal terms open; this sort keeps them in table order.
\<close>

fun insort_by :: "('a \<Rightarrow> 'a \<Rightarrow> bool) \<Rightarrow> 'a \<Rightarrow> 'a list \<Rightarrow> 'a list" where
  "insort_by le x [] = [x]"
| "insort_by le x (y # ys) = (if le x y then x # y # ys else y # insort_by le x ys)"

definition sort_by :: "('a \<Rightarrow> 'a \<Rightarrow> bool) \<Rightarrow> 'a list \<Rightarrow> 'a list" where
  "sort_by le xs = foldr (insort_by le) xs []"

definition get_tasks :: "query \<Rightarrow> db \<Rightarrow> task_json list" where
  "get_tasks q d = map to_json (sort_by (order_by (q_sortBy q)) (filter (where_clause q) d))"

text \<open>A search string without the two characters \<open>LIKE\<close> reads as wildcards.\<close>

definition wildcard_free :: "string \<Rightarrow> bool" where
  "wildcard_free s = (CHR ''%'' \<notin> set s \<and> CHR ''_'' \<notin> set s)"

text \<open>What the specification asks of a search: a substring, up to the case of letters.\<close>

fun starts_with_ci :: "string \<Rightarrow> string \<Rightarrow> bool" where
  "starts_with_ci [] t = True"
| "starts_with_ci (c # cs) [] = False"
| "starts_with_ci (c # cs) (x # xs) = (to_lower c = to_lower x \<and> starts_with_ci cs xs)"

fun contains_ci :: "string \<Rightarrow> string \<Rightarrow> bool" where
  "contains_ci s [] = starts_with_ci s []"
| "contains_ci s (x # xs) = (starts_with_ci s (x # xs) \<or> contains_ci s xs)"

section \<open>Due dates as instants\<close>

text \<open>
  What "ascending by due date" compares: the instant a due date names, in milliseconds
  since 1970-01-01T00:00:00.000Z. Two forms of the ECMAScript date-time string format are
  read, \<open>YYYY-MM-DDTHH:mm:ss.sssZ\<close> (the form \<open>toISOString\<close> produces) and the same with
  an offset \<open>+HH:mm\<close> or \<open>-HH:mm\<close> in place of \<open>Z\<close>; every other string has no instant
  here. The handlers do not use these definitions: they say what the stored texts mean.
\<close>

definition digit :: "char \<Rightarrow> nat option" where
  "digit c = (if CHR ''0'' \<le> c \<and> c \<le> CHR ''9'' then Some (of_char c - 48) else None)"

fun decimal :: "string \<Rightarrow> nat option" where
  "decimal [] = Some 0"
| "decimal (c # cs) =
     (case (digit c, decimal cs) of
        (Some d, Some n) \<Rightarrow> Some (d * 10 ^ length cs + n)
      | _ \<Rightarrow> None)"

text \<open>Read a number of \<open>n\<close> digits, or one given character, off the front of a string.\<close>

definition take_number :: "nat \<Rightarrow> string \<Rightarrow> (nat \<times> string) option" where
  "take_number n s =
     (if length s < n then None else map_option (\<lambda>v. (v, drop n s)) (decimal (take n s)))"

definition expect :: "char \<Rightarrow> string \<Rightarrow> string option" where
  "expect c s = (case s of [] \<Rightarrow> None | x # r \<Rightarrow> if x = c then Some r else None)"

text \<open>Year, month, day, hour, minute, second, millisecond.\<close>

type_synonym fields = "nat \<times> nat \<times> nat \<times> nat \<times> nat \<times> nat \<times> nat"

definition date_time :: "string \<Rightarrow> (fields \<times> string) option" where
  "date_time x =
     Option.bind (take_number 4 x) (\<lambda>(Y, r).
     Option.bind (expect CHR ''-'' r) (\<lambda>r.
     Option.bind (take_number 2 r) (\<lambda>(M, r).
     Option.bind (expect CHR ''-'' r) (\<lambda>r.
     Option.bind (take_number 2 r) (\<lambda>(D, r).
     Option.bind (expect CHR ''T'' r) (\<lambda>r.
     Option.bind (take_number 2 r) (\<lambda>(h, r).
     Option.bind (expect CHR '':'' r) (\<lambda>r.
     Option.bind (take_number 2 r) (\<lambda>(mi, r).
     Option.bind (expect CHR '':'' r) (\<lambda>r.
     Option.bind (take_number 2 r) (\<lambda>(s, r).
     Option.bind (expect CHR ''.'' r) (\<lambda>r.
     Option.bind (take_number 3 r) (\<lambda>(ms, r).
     Some ((Y, M, D, h, mi, s, ms), r))))))))))))))"

definition leap_year :: "nat \<Rightarrow> bool" where
  "leap_year y = (y mod 4 = 0 \<and> (y mod 100 \<noteq> 0 \<or> y mod 400 = 0))"

definition days_in_month :: "nat \<Rightarrow> nat \<Rightarrow> nat" where
  "days_in_month y m =
     (if m = 2 then (if leap_year y then 29 else 28)
      else if m = 4 \<or> m = 6 \<or> m = 9 \<or> m = 11 then 30
      else 31)"



fun valid_fields :: "fields \<Rightarrow> bool" where
  "valid_fields (Y, M, D, h, mi, s, ms) =
     (1 \<le> M \<and> M \<le> 12 \<and> 1 \<le> D \<and> D \<le> days_in_month Y M \<and> h \<le> 23 \<and> mi \<le> 59 \<and> s \<le> 59)"




text \<open>The form \<open>toISOString\<close> produces.\<close>

definition utc_form :: "string \<Rightarrow> bool" where
  "utc_form x = (case date_time x of None \<Rightarrow> False | Some (f, z) \<Rightarrow> valid_fields f \<and> z = ''Z'')"

section \<open>The task state hook\<close>

text \<open>
  The state \<open>useTasks\<close> holds, the API client calls it issues, and what one run of a hook
  function does, in order: a state setter leaves a \<open>State\<close> event with the state it
  produced, a call of the API client leaves a \<open>Request\<close> event. The outcome of each
  awaited call is an argument: \<open>Inr\<close> the value it resolves to, \<open>Inl\<close> the message of the
  error it rejects with. A task, a \<open>taskData\<close> and an \<open>updates\<close> are objects: maps from
  property names to JSON values.
\<close>

type_synonym obj = "string \<rightharpoonup> json"

record hook =
  h_tasks :: "obj list"
  h_loading :: bool
  h_error :: "string option"

datatype api_call =
    GetTasks
  | CreateTask obj
  | UpdateTask string obj
  | ToggleTask string
  | DeleteTask string

datatype event = State hook | Request api_call

text \<open>\<open>task.id === id\<close>, for the string \<open>id\<close> the hook function is called with.\<close>

definition has_id :: "string \<Rightarrow> obj \<Rightarrow> bool" where
  "has_id i task = (task ''id'' = Some (JString i))"

text \<open>
  \<open>fetchTasks\<close>, with the filters left out: they decide the parameters of the request,
  not when it is sent.
\<close>

definition fetchTasks :: "string + obj list \<Rightarrow> hook \<Rightarrow> event list \<times> hook" where
  "fetchTasks fetched h =
     (let h1 = h\<lparr>h_loading := True\<rparr>;
          h2 = h1\<lparr>h_error := None\<rparr>
      in case fetched of
           Inr fetchedTasks \<Rightarrow>
             (let h3 = h2\<lparr>h_tasks := fetchedTasks\<rparr>;
                  h4 = h3\<lparr>h_loading := False\<rparr>
              in ([State h1, State h2, Request GetTasks, State h3, State h4], h4))
         | Inl message \<Rightarrow>
             (let h3 = h2\<lparr>h_error := Some message\<rparr>;
                  h4 = h3\<lparr>h_loading := False\<rparr>
              in ([State h1, State h2, Request GetTasks, State h3, State h4], h4)))"

definition addTask :: "obj \<Rightarrow> string + obj \<Rightarrow> hook \<Rightarrow> event list \<times> hook" where
  "addTask taskData created h =
     (let h1 = h\<lparr>h_error := None\<rparr>
      in case created of
           Inr newTask \<Rightarrow>
             (let h2 = h1\<lparr>h_tasks := newTask # h_tasks h1\<rparr>
              in ([State h1, Request (CreateTask taskData), State h2], h2))
         | Inl message \<Rightarrow>
             (let h2 = h1\<lparr>h_error := Some message\<rparr>
              in ([State h1, Request (CreateTask taskData), State h2], h2)))"

text \<open>
  The object spread \<open>{ ...task, ...updates }\<close> is \<open>task ++ updates\<close>: every property of
  \<open>updates\<close> overwrites the task's, a \<open>null\<close> one included.
\<close>

definition updateTaskData ::
  "string \<Rightarrow> obj \<Rightarrow> string + obj \<Rightarrow> string + obj list \<Rightarrow> hook \<Rightarrow> event list \<times> hook" where
  "updateTaskData i updates answer fetched h =
     (let h1 = h\<lparr>h_error := None\<rparr>;
          h2 = h1\<lparr>h_tasks := map (\<lambda>task. if has_id i task then task ++ updates else task) (h_tasks h1)\<rparr>
      in case answer of
           Inr updatedTask \<Rightarrow>
             (let h3 = h2\<lparr>h_tasks := map (\<lambda>task. if has_id i task then updatedTask else task) (h_tasks h2)\<rparr>
              in ([State h1, State h2, Request (UpdateTask i updates), State h3], h3))
         | Inl message \<Rightarrow>
             (let h3 = h2\<lparr>h_error := Some message\<rparr>;
                  (es, h4) = fetchTasks fetched h3
              in ([State h1, State h2, Request (UpdateTask i updates), State h3] @ es, h4)))"

text \<open>\<open>{ ...task, completed: !task.completed }\<close>\<close>

definition toggle_completed :: "obj \<Rightarrow> obj" where
  "toggle_completed task = task(''completed'' \<mapsto> JBoolean (falsy (task ''completed'')))"

definition toggleTaskCompletion ::
  "string \<Rightarrow> string + obj \<Rightarrow> string + obj list \<Rightarrow> hook \<Rightarrow> event list \<times> hook" where
  "toggleTaskCompletion i answer fetched h =
     (let h1 = h\<lparr>h_error := None\<rparr>;
          h2 = h1\<lparr>h_tasks := map (\<lambda>task. if has_id i task then toggle_completed task else task) (h_tasks h1)\<rparr>
      in case answer of
           Inr updatedTask \<Rightarrow>
             (let h3 = h2\<lparr>h_tasks := map (\<lambda>task. if has_id i task then updatedTask else task) (h_tasks h2)\<rparr>
              in ([State h1, State h2, Request (ToggleTask i), State h3], h3))
         | Inl message \<Rightarrow>
             (let h3 = h2\<lparr>h_error := Some message\<rparr>;
                  (es, h4) = fetchTasks fetched h3
              in ([State h1, State h2, Request (ToggleTask i), State h3] @ es, h4)))"

text \<open>After a delete that succeeds \<open>removeTask\<close> calls no setter.\<close>

definition removeTask ::
  "string \<Rightarrow> string + unit \<Rightarrow> string + obj list \<Rightarrow> hook \<Rightarrow> event list \<times> hook" where
  "removeTask i answer fetched h =
     (let h1 = h\<lparr>h_error := None\<rparr>;
          h2 = h1\<lparr>h_tasks := filter (\<lambda>task. \<not> has_id i task) (h_tasks h1)\<rparr>
      in case answer of
           Inr done \<Rightarrow> ([State h1, State h2, Request (DeleteTask i)], h2)
         | Inl message \<Rightarrow>
             (let h3 = h2\<lparr>h_error := Some message\<rparr>;
                  (es, h4) = fetchTasks fetched h3
              in ([State h1, State h2, Request (DeleteTask i), State h3] @ es, h4)))"

text \<open>The local tasks at the moment the first request of a run is sent.\<close>

fun tasks_at_request :: "obj list \<Rightarrow> event list \<Rightarrow> obj list option" where
  "tasks_at_request ts [] = None"
| "tasks_at_request ts (State h # es) = tasks_at_request (h_tasks h) es"
| "tasks_at_request ts (Request c # es) = Some ts"

section \<open>Example data\<close>

text \<open>The three tasks the server starts with, at fixed ids and times.\<close>

definition task1 :: row where
  "task1 = \<lparr>task_id = ''id-1'', title = ''Complete project documentation'', description = [],
            dueDate = Some ''2026-01-02T09:00:00.000Z'', priority = ''high'', tags = Some [],
            completed = 0, createdAt = ''2026-01-01T09:00:00.000Z'',
            updatedAt = ''2026-01-01T09:00:00.000Z''\<rparr>"

definition task2 :: row where
  "task2 = \<lparr>task_id = ''id-2'', title = ''Review pull requests'', description = [],
            dueDate = None, priority = ''medium'', tags = Some [],
            completed = 0, createdAt = ''2026-01-01T09:00:00.000Z'',
            updatedAt = ''2026-01-01T09:00:00.000Z''\<rparr>"

definition task3 :: row where
  "task3 = \<lparr>task_id = ''id-3'', title = ''Update dependencies'', description = [],
            dueDate = None, priority = ''low'', tags = Some [],
            completed = 0, createdAt = ''2026-01-01T09:00:00.000Z'',
            updatedAt = ''2026-01-01T09:00:00.000Z''\<rparr>"

definition initialTasks :: db where
  "initialTasks = [task1, task2, task3]"


text \<open>
  A \<open>Date.parse\<close> for the examples. It agrees with the engine's on the strings the
  examples give it: one ISO date-time, and otherwise strings no engine parses.
\<close>

definition Date_parse_example :: date_parse where
  "Date_parse_example s =
     (if s = ''2026-01-01T00:00:00.000Z'' then Some 1767225600000 else None)"

text \<open>Request bodies for the examples.\<close>

definition buy_milk :: body where
  "buy_milk = \<lparr>b_title = Some (JString ''  Buy milk ''), b_description = Undefined, b_dueDate = Null,
                b_priority = Undefined, b_tags = Undefined, b_completed = Undefined\<rparr>"

definition milk_row :: row where
  "milk_row = \<lparr>task_id = ''id-4'', title = ''Buy milk'', description = [], dueDate = None,
               priority = ''medium'', tags = Some [], completed = 0,
               createdAt = ''2026-01-03T09:00:00.000Z'', updatedAt = ''2026-01-03T09:00:00.000Z''\<rparr>"

definition not_a_date :: body where
  "not_a_date = \<lparr>b_title = Some (JString ''Test''), b_description = Undefined, b_dueDate = Val ''not-a-date'',
                  b_priority = Undefined, b_tags = Undefined, b_completed = Undefined\<rparr>"

definition empty_dueDate :: body where
  "empty_dueDate = \<lparr>b_title = Some (JString ''Test''), b_description = Undefined, b_dueDate = Val [],
                     b_priority = Undefined, b_tags = Undefined, b_completed = Undefined\<rparr>"

text \<open>The row Create stores for the two bodies above that pass, with its due date.\<close>

definition test_row :: "string option \<Rightarrow> row" where
  "test_row due = \<lparr>task_id = ''id-4'', title = ''Test'', description = [], dueDate = due,
                    priority = ''medium'', tags = Some [], completed = 0,
                    createdAt = ''2026-01-03T09:00:00.000Z'', updatedAt = ''2026-01-03T09:00:00.000Z''\<rparr>"

definition only_priority :: body where
  "only_priority = \<lparr>b_title = None, b_description = Undefined, b_dueDate = Undefined,
                     b_priority = Val ''low'', b_tags = Undefined, b_completed = Undefined\<rparr>"




definition search_underscore :: query where
  "search_underscore = \<lparr>q_status = None, q_priority = None, q_search = Some ''_'', q_sortBy = None\<rparr>"

definition complete_three :: bulk_body where
  "complete_three = \<lparr>b_action = Val ''complete'', b_taskIds = Val [''id-1'', ''id-2'', ''id-9'']\<rparr>"

section \<open>Facts about the primitives\<close>

lemma select_by_id_None: "select_by_id d i = None \<longleftrightarrow> i \<notin> task_id ` set d"
  by (auto simp: select_by_id_def find_None_iff)

lemma select_by_id_Some: "select_by_id d i = Some r \<Longrightarrow> r \<in> set d \<and> task_id r = i"
  by (auto simp: select_by_id_def find_Some_iff)

lemma changes_pos: "i \<in> task_id ` set d \<Longrightarrow> 0 < changes i d"
  by (auto simp: changes_def filter_empty_conv)

lemma task_id_delete_where_id: "task_id ` set (delete_where_id i d) = task_id ` set d - {i}"
  by (auto simp: delete_where_id_def)

lemma select_by_id_update_same:
  assumes "\<And>r. task_id (f r) = task_id r"
  shows "select_by_id (update_where_id f i d) i = map_option f (select_by_id d i)"
  using assms by (induction d) (auto simp: select_by_id_def update_where_id_def)


lemma select_by_id_append_new:
  "i \<notin> task_id ` set d \<Longrightarrow> task_id r = i \<Longrightarrow> select_by_id (d @ [r]) i = Some r"
  by (induction d) (auto simp: select_by_id_def)

lemma task_id_set_columns [simp]: "task_id (set_columns b now r) = task_id r"
  by (simp add: set_columns_def)

section \<open>Delete\<close>

text \<open>
  C6. Delete of an id that is in the table answers with success and removes its row,
  leaving every other row; delete of an id that is not in the table answers not-found and
  leaves the table as it is. So a second delete of the same id answers not-found.
\<close>

theorem delete_task_spec:
  "(i \<in> task_id ` set d \<longrightarrow>
      delete_task i d = (Inr i, filter (\<lambda>r. task_id r \<noteq> i) d)
      \<and> i \<notin> task_id ` set (snd (delete_task i d))
      \<and> is_not_found (fst (delete_task i (snd (delete_task i d)))))
   \<and> (i \<notin> task_id ` set d \<longrightarrow>
      delete_task i d = (Inl (Not_Found ''Task not found''), d))"
proof (intro conjI impI)
  assume ex: "i \<in> task_id ` set d"
  then obtain r where r: "select_by_id d i = Some r"
    using select_by_id_None [of d i] by (cases "select_by_id d i") auto
  show del: "delete_task i d = (Inr i, filter (\<lambda>r. task_id r \<noteq> i) d)"
    using r changes_pos [OF ex] by (simp add: delete_task_def delete_where_id_def)
  show gone: "i \<notin> task_id ` set (snd (delete_task i d))"
    by (auto simp: del)
  have "select_by_id (snd (delete_task i d)) i = None"
    using gone by (simp only: select_by_id_None not_False_eq_True)
  then show "is_not_found (fst (delete_task i (snd (delete_task i d))))"
    by (simp add: delete_task_def [of i "snd (delete_task i d)"])
next
  assume "i \<notin> task_id ` set d"
  then have "select_by_id d i = None"
    by (simp add: select_by_id_None)
  then show "delete_task i d = (Inl (Not_Found ''Task not found''), d)"
    by (simp add: delete_task_def)
qed

theorem delete_task_spec_witness:
  "''id-2'' \<in> task_id ` set initialTasks
   \<and> delete_task ''id-2'' initialTasks = (Inr ''id-2'', [task1, task3])
   \<and> delete_task ''id-2'' [task1, task3] = (Inl (Not_Found ''Task not found''), [task1, task3])
   \<and> ''id-9'' \<notin> task_id ` set initialTasks
   \<and> delete_task ''id-9'' initialTasks = (Inl (Not_Found ''Task not found''), initialTasks)"
  using delete_task_spec [of "''id-2''" initialTasks] delete_task_spec [of "''id-2''" "[task1, task3]"]
    delete_task_spec [of "''id-9''" initialTasks]
  by (simp add: initialTasks_def task1_def task2_def task3_def)

section \<open>Update of an id that is not in the table\<close>

text \<open>
  C10. An update of an id that is not in the table answers not-found whatever the body
  holds, an empty title, a priority outside the enum and an unparsable due date included:
  the handler looks the row up before it validates.
\<close>

theorem put_task_not_found_first:
  "i \<notin> task_id ` set d \<Longrightarrow> put_task Date_parse now i b d = (Inl (Not_Found ''Task not found''), d)"
  by (simp add: put_task_def select_by_id_None [symmetric])

theorem put_task_not_found_first_witness:
  "''id-9'' \<notin> task_id ` set initialTasks
   \<and> falsy (Some (JString []))
   \<and> \<not> includes_priority (Val ''urgent'')
   \<and> isNaN (Date_parse_example ''not-a-date'')
   \<and> put_task Date_parse_example ''2026-01-03T09:00:00.000Z'' ''id-9''
        \<lparr>b_title = Some (JString []), b_description = Undefined, b_dueDate = Val ''not-a-date'',
         b_priority = Val ''urgent'', b_tags = Undefined, b_completed = Undefined\<rparr> initialTasks
       = (Inl (Not_Found ''Task not found''), initialTasks)"
  using put_task_not_found_first [of "''id-9''" initialTasks Date_parse_example "''2026-01-03T09:00:00.000Z''"
     "\<lparr>b_title = Some (JString []), b_description = Undefined, b_dueDate = Val ''not-a-date'',
         b_priority = Val ''urgent'', b_tags = Undefined, b_completed = Undefined\<rparr>"]
  by (simp add: initialTasks_def task1_def task2_def task3_def isNaN_def Date_parse_example_def priorities_def)

section \<open>Toggle\<close>






section \<open>Facts about trim\<close>

lemma rev_dropWhile_takeWhile:
  "xs = rev (dropWhile P (rev xs)) @ rev (takeWhile P (rev xs))"
proof -
  have "rev xs = takeWhile P (rev xs) @ dropWhile P (rev xs)"
    by simp
  then have "rev (rev xs) = rev (takeWhile P (rev xs) @ dropWhile P (rev xs))"
    by (rule arg_cong)
  then show ?thesis
    by (simp only: rev_rev_ident rev_append)
qed

lemma dropWhile_all_iff: "(\<forall>x \<in> set (dropWhile P s). P x) \<longleftrightarrow> dropWhile P s = []"
proof
  assume all: "\<forall>x \<in> set (dropWhile P s). P x"
  show "dropWhile P s = []"
  proof (rule ccontr)
    assume ne: "dropWhile P s \<noteq> []"
    then have "hd (dropWhile P s) \<in> set (dropWhile P s)"
      by (rule hd_in_set)
    with all have "P (hd (dropWhile P s))"
      by blast
    with hd_dropWhile [OF ne] show False
      by blast
  qed
next
  assume e: "dropWhile P s = []"
  show "\<forall>x \<in> set (dropWhile P s). P x"
    unfolding e by simp
qed

lemma trim_decomp:
  "\<exists>pre post. s = pre @ trim s @ post \<and> (\<forall>c \<in> set pre. is_space c) \<and> (\<forall>c \<in> set post. is_space c)"
proof -
  let ?u = "dropWhile is_space s"
  let ?post = "rev (takeWhile is_space (rev ?u))"
  have u: "?u = trim s @ ?post"
    unfolding trim_def by (rule rev_dropWhile_takeWhile)
  have "s = takeWhile is_space s @ ?u"
    by simp
  with u have "s = takeWhile is_space s @ trim s @ ?post"
    by simp
  moreover have "\<forall>c \<in> set (takeWhile is_space s). is_space c"
    by (auto dest: set_takeWhileD)
  moreover have "\<forall>c \<in> set ?post. is_space c"
    by (auto dest: set_takeWhileD)
  ultimately show ?thesis by blast
qed

lemma trim_empty_iff: "trim s = [] \<longleftrightarrow> (\<forall>c \<in> set s. is_space c)"
proof -
  have "trim s = [] \<longleftrightarrow> (\<forall>c \<in> set (dropWhile is_space s). is_space c)"
    by (simp add: trim_def dropWhile_eq_Nil_conv)
  also have "\<dots> \<longleftrightarrow> dropWhile is_space s = []"
    by (rule dropWhile_all_iff)
  also have "\<dots> \<longleftrightarrow> (\<forall>c \<in> set s. is_space c)"
    by (rule dropWhile_eq_Nil_conv)
  finally show ?thesis .
qed

lemma trim_ends:
  assumes "trim s \<noteq> []"
  shows "\<not> is_space (hd (trim s))" and "\<not> is_space (last (trim s))"
proof -
  let ?u = "dropWhile is_space s"
  have ne: "dropWhile is_space (rev ?u) \<noteq> []"
    using assms by (simp add: trim_def)
  have "last (trim s) = hd (dropWhile is_space (rev ?u))"
    using ne by (simp add: trim_def last_rev)
  then show "\<not> is_space (last (trim s))"
    using hd_dropWhile [OF ne] by simp
  have u: "?u = trim s @ rev (takeWhile is_space (rev ?u))"
    unfolding trim_def by (rule rev_dropWhile_takeWhile)
  then have "hd ?u = hd (trim s)"
    using assms by (metis hd_append2)
  moreover have "?u \<noteq> []"
    using u assms by (metis Nil_is_append_conv)
  ultimately show "\<not> is_space (hd (trim s))"
    using hd_dropWhile [of is_space s] by simp
qed

section \<open>Create\<close>

lemma post_task_Inr:
  assumes "post_task Date_parse uuid now b d = (Inr t, d')"
  shows "\<exists>s ds p. b_title b = Some (JString s) \<and> trim s \<noteq> []
           \<and> default_to (Val []) (b_description b) = Val ds
           \<and> default_to (Val ''medium'') (b_priority b) = Val p
           \<and> uuid \<notin> task_id ` set d
           \<and> d' = d @ [\<lparr>task_id = uuid, title = trim s, description = trim ds,
                          dueDate = field_option (default_to Null (b_dueDate b)), priority = p,
                          tags = field_option (default_to (Val []) (b_tags b)), completed = 0,
                          createdAt = now, updatedAt = now\<rparr>]
           \<and> t = to_json \<lparr>task_id = uuid, title = trim s, description = trim ds,
                          dueDate = field_option (default_to Null (b_dueDate b)), priority = p,
                          tags = field_option (default_to (Val []) (b_tags b)), completed = 0,
                          createdAt = now, updatedAt = now\<rparr>"
proof -
  from assms have ok: "\<not> title_rejected (b_title b)"
    by (auto simp: post_task_def Let_def split: if_splits)
  then obtain s where s: "b_title b = Some (JString s)" and ne: "trim s \<noteq> []"
    by (cases "b_title b" rule: falsy.cases) (auto simp: title_rejected_def)
  from assms s ne show ?thesis
    by (auto simp: post_task_def Let_def select_by_id_append_new
        split: if_splits field.splits option.splits)
qed

lemma post_task_buy_milk:
  "post_task Date_parse_example ''id-4'' ''2026-01-03T09:00:00.000Z'' buy_milk initialTasks
     = (Inr (to_json milk_row), initialTasks @ [milk_row])"
  by (simp add: post_task_def buy_milk_def milk_row_def initialTasks_def task1_def task2_def task3_def
      title_rejected_def trim_def is_space_def priorities_def select_by_id_def to_json_def)

lemma post_task_validation_iff:
  "is_validation_error (fst (post_task Date_parse uuid now b d)) \<longleftrightarrow>
     title_rejected (b_title b)
     \<or> \<not> includes_priority (default_to (Val ''medium'') (b_priority b))
     \<or> (\<exists>s. b_dueDate b = Val s \<and> s \<noteq> [] \<and> Date_parse s = None)"
  by (cases "b_dueDate b")
     (auto simp: post_task_def Let_def isNaN_def select_by_id_append_new
      split: if_splits field.splits option.splits)

lemma title_rejected_iff:
  "title_rejected f \<longleftrightarrow> \<not> (\<exists>t. f = Some (JString t) \<and> \<not> (\<forall>c \<in> set t. is_space c))"
  by (cases f rule: falsy.cases) (auto simp: title_rejected_def trim_empty_iff)

lemma includes_priority_default_iff:
  "\<not> includes_priority (default_to (Val ''medium'') f) \<longleftrightarrow>
     f = Null \<or> (\<exists>p. f = Val p \<and> p \<notin> {''low'', ''medium'', ''high''})"
  by (cases f) (auto simp: priorities_def)

lemma post_task_null_dueDate:
  assumes "b_dueDate b = Null" and "b_title b = Some (JString t)" and "\<not> (\<forall>c \<in> set t. is_space c)"
    and "includes_priority (default_to (Val ''medium'') (b_priority b))"
    and "b_description b \<noteq> Null" and "uuid \<notin> task_id ` set d"
  shows "\<exists>r. post_task Date_parse uuid now b d = (Inr (to_json r), d @ [r])
           \<and> task_id r = uuid \<and> dueDate r = None \<and> dueDate (to_json r) = None"
proof -
  from assms(2,3) have "\<not> title_rejected (b_title b)"
    by (simp add: title_rejected_iff)
  with assms show ?thesis
    by (cases "b_description b"; cases "default_to (Val ''medium'') (b_priority b)")
       (simp_all add: post_task_def Let_def select_by_id_append_new to_json_def)
qed

text \<open>
  C8. When Create succeeds, the title of the record it returns is the title of the request
  without the white space at its two ends (the request's title is that title between two
  runs of white space, and the title neither starts nor ends with white space), completed
  is false, and a request without a priority gets the priority medium.
\<close>

theorem post_task_created:
  assumes "post_task Date_parse uuid now b d = (Inr t, d')"
  shows "(\<exists>s pre post. b_title b = Some (JString s) \<and> title t = trim s
            \<and> s = pre @ title t @ post
            \<and> (\<forall>c \<in> set pre. is_space c) \<and> (\<forall>c \<in> set post. is_space c)
            \<and> title t \<noteq> [] \<and> \<not> is_space (hd (title t)) \<and> \<not> is_space (last (title t)))
         \<and> completed t = False
         \<and> (b_priority b = Undefined \<longrightarrow> priority t = ''medium'')"
proof -
  from post_task_Inr [OF assms] obtain s ds p where
    s: "b_title b = Some (JString s)" and ne: "trim s \<noteq> []"
    and p: "default_to (Val ''medium'') (b_priority b) = Val p"
    and t: "t = to_json \<lparr>task_id = uuid, title = trim s, description = trim ds,
                          dueDate = field_option (default_to Null (b_dueDate b)), priority = p,
                          tags = field_option (default_to (Val []) (b_tags b)), completed = 0,
                          createdAt = now, updatedAt = now\<rparr>"
    by blast
  have title: "title t = trim s" and "completed t = False" and prio: "priority t = p"
    by (simp_all add: t to_json_def Boolean_def)
  obtain pre post where "s = pre @ trim s @ post"
    "\<forall>c \<in> set pre. is_space c" "\<forall>c \<in> set post. is_space c"
    using trim_decomp [of s] by blast
  with s title ne trim_ends [OF ne]
  have "\<exists>s pre post. b_title b = Some (JString s) \<and> title t = trim s
            \<and> s = pre @ title t @ post
            \<and> (\<forall>c \<in> set pre. is_space c) \<and> (\<forall>c \<in> set post. is_space c)
            \<and> title t \<noteq> [] \<and> \<not> is_space (hd (title t)) \<and> \<not> is_space (last (title t))"
    by auto
  moreover have "b_priority b = Undefined \<longrightarrow> priority t = ''medium''"
    using p prio by auto
  ultimately show ?thesis
    using \<open>completed t = False\<close> by blast
qed

theorem post_task_created_witness:
  "post_task Date_parse_example ''id-4'' ''2026-01-03T09:00:00.000Z'' buy_milk initialTasks
     = (Inr (to_json milk_row), initialTasks @ [milk_row])
   \<and> b_title buy_milk = Some (JString ''  Buy milk '') \<and> title (to_json milk_row) = ''Buy milk''
   \<and> completed (to_json milk_row) = False
   \<and> b_priority buy_milk = Undefined \<and> priority (to_json milk_row) = ''medium''"
  using post_task_buy_milk post_task_created [OF post_task_buy_milk]
  by (simp add: buy_milk_def milk_row_def to_json_def Boolean_def)

text \<open>
  What Create validates: it answers with a validation error exactly when the title is
  anything but a string with a character that is not white space, or the priority is
  supplied and is not one of low, medium, high, or the due date is a non-empty string that
  \<open>Date.parse\<close> does not parse.
\<close>

lemma post_task_validation:
  "is_validation_error (fst (post_task Date_parse uuid now b d)) \<longleftrightarrow>
     \<not> (\<exists>t. b_title b = Some (JString t) \<and> \<not> (\<forall>c \<in> set t. is_space c))
     \<or> (b_priority b = Null \<or> (\<exists>p. b_priority b = Val p \<and> p \<notin> {''low'', ''medium'', ''high''}))
     \<or> (\<exists>s. b_dueDate b = Val s \<and> s \<noteq> [] \<and> Date_parse s = None)"
  unfolding post_task_validation_iff title_rejected_iff includes_priority_default_iff ..

text \<open>
  C1, at an empty due date. The empty string is a due date that is present, is not null
  and does not parse; the claim asks for a validation error. Create accepts it and stores
  the empty string, where a request without a due date stores null, and Update refuses the
  same due date on the task just created.
\<close>

theorem post_task_empty_dueDate:
  "b_dueDate empty_dueDate = Val [] \<and> Date_parse_example [] = None
   \<and> fst (post_task Date_parse_example ''id-4'' ''2026-01-03T09:00:00.000Z'' empty_dueDate initialTasks)
       = Inr (to_json (test_row (Some [])))
   \<and> snd (post_task Date_parse_example ''id-4'' ''2026-01-03T09:00:00.000Z'' empty_dueDate initialTasks)
       = initialTasks @ [test_row (Some [])]
   \<and> snd (post_task Date_parse_example ''id-4'' ''2026-01-03T09:00:00.000Z''
            (empty_dueDate\<lparr>b_dueDate := Undefined\<rparr>) initialTasks)
       = initialTasks @ [test_row None]
   \<and> fst (put_task Date_parse_example ''2026-01-03T09:00:01.000Z'' ''id-4''
            (only_priority\<lparr>b_priority := Undefined, b_dueDate := Val []\<rparr>)
            (initialTasks @ [test_row (Some [])]))
       = Inl (Bad_Request ''Invalid due date format'')"
  by (simp add: post_task_def put_task_def empty_dueDate_def only_priority_def test_row_def
      Date_parse_example_def isNaN_def initialTasks_def task1_def task2_def task3_def
      title_rejected_def trim_def is_space_def priorities_def select_by_id_def to_json_def)

section \<open>Update\<close>


lemma put_task_error_unchanged:
  assumes "put_task Date_parse now i b d = (Inl e, d')"
  shows "d' = d"
proof (cases "select_by_id d i")
  case None
  with assms show ?thesis
    by (simp add: put_task_def)
next
  case (Some r)
  have "select_by_id (update_where_id (set_columns b now) i d) i = Some (set_columns b now r)"
    using Some by (simp add: select_by_id_update_same)
  with assms Some show ?thesis
    by (auto simp: put_task_def Let_def split: if_splits)
qed




section \<open>Bulk actions\<close>

lemma for_each_Cons: "for_each run (i # ids) d = for_each run ids (run i d)"
  by (simp add: for_each_def)

lemma for_each_update:
  assumes "\<And>r. task_id (f r) = task_id r" and "\<And>r. f (f r) = f r"
  shows "for_each (update_where_id f) ids d = map (\<lambda>r. if task_id r \<in> set ids then f r else r) d"
proof (induction ids arbitrary: d)
  case Nil
  show ?case by (simp add: for_each_def)
next
  case (Cons i ids)
  have "for_each (update_where_id f) (i # ids) d
          = map (\<lambda>r. if task_id r \<in> set ids then f r else r) (update_where_id f i d)"
    by (simp only: for_each_Cons Cons.IH)
  also have "\<dots> = map (\<lambda>r. if task_id r \<in> set (i # ids) then f r else r) d"
    using assms by (simp add: update_where_id_def)
  finally show ?case .
qed

lemma for_each_delete:
  "for_each delete_where_id ids d = filter (\<lambda>r. task_id r \<notin> set ids) d"
proof (induction ids arbitrary: d)
  case Nil
  show ?case by (simp add: for_each_def)
next
  case (Cons i ids)
  have "for_each delete_where_id (i # ids) d
          = filter (\<lambda>r. task_id r \<notin> set ids) (delete_where_id i d)"
    by (simp only: for_each_Cons Cons.IH)
  also have "\<dots> = filter (\<lambda>r. task_id r \<notin> set (i # ids)) d"
    by (auto simp: delete_where_id_def intro: filter_cong)
  finally show ?case .
qed

lemma set_completed_facts [simp]:
  "task_id (set_completed c now r) = task_id r"
  "set_completed c now (set_completed c now r) = set_completed c now r"
  by (simp_all add: set_completed_def)

text \<open>
  C3. A bulk request with a non-empty id list and the action complete, uncomplete or
  delete succeeds and answers with the number of ids listed. Complete and uncomplete
  rewrite completed and updatedAt of exactly the rows whose id is listed, delete removes
  exactly those rows; a listed id with no row changes nothing and is not reported. The
  request fails with a validation error, and leaves the table as it is, exactly when the
  id list is absent, null or empty or the action is none of the three.
\<close>

theorem bulk_task_spec:
  "(b_taskIds b = Val ids \<and> ids \<noteq> [] \<and> b_action b = Val ''complete'' \<longrightarrow>
      bulk_task now b d =
        (Inr (Tasks_Updated (length ids)),
         map (\<lambda>r. if task_id r \<in> set ids then r\<lparr>completed := 1, updatedAt := now\<rparr> else r) d))
   \<and> (b_taskIds b = Val ids \<and> ids \<noteq> [] \<and> b_action b = Val ''uncomplete'' \<longrightarrow>
      bulk_task now b d =
        (Inr (Tasks_Updated (length ids)),
         map (\<lambda>r. if task_id r \<in> set ids then r\<lparr>completed := 0, updatedAt := now\<rparr> else r) d))
   \<and> (b_taskIds b = Val ids \<and> ids \<noteq> [] \<and> b_action b = Val ''delete'' \<longrightarrow>
      bulk_task now b d =
        (Inr (Tasks_Deleted (length ids)), filter (\<lambda>r. task_id r \<notin> set ids) d))
   \<and> count (Tasks_Updated (length ids)) = length ids
   \<and> count (Tasks_Deleted (length ids)) = length ids
   \<and> (is_validation_error (fst (bulk_task now b d)) \<longleftrightarrow>
        b_taskIds b = Undefined \<or> b_taskIds b = Null \<or> b_taskIds b = Val []
        \<or> b_action b \<notin> {Val ''complete'', Val ''uncomplete'', Val ''delete''})
   \<and> (is_validation_error (fst (bulk_task now b d)) \<longrightarrow> snd (bulk_task now b d) = d)"
proof (intro conjI impI)
  assume "b_taskIds b = Val ids \<and> ids \<noteq> [] \<and> b_action b = Val ''complete''"
  then show "bulk_task now b d =
        (Inr (Tasks_Updated (length ids)),
         map (\<lambda>r. if task_id r \<in> set ids then r\<lparr>completed := 1, updatedAt := now\<rparr> else r) d)"
    using for_each_update [of "set_completed 1 now" ids d]
    by (simp add: bulk_task_def) (simp add: set_completed_def)
next
  assume "b_taskIds b = Val ids \<and> ids \<noteq> [] \<and> b_action b = Val ''uncomplete''"
  then show "bulk_task now b d =
        (Inr (Tasks_Updated (length ids)),
         map (\<lambda>r. if task_id r \<in> set ids then r\<lparr>completed := 0, updatedAt := now\<rparr> else r) d)"
    using for_each_update [of "set_completed 0 now" ids d]
    by (simp add: bulk_task_def) (simp add: set_completed_def)
next
  assume "b_taskIds b = Val ids \<and> ids \<noteq> [] \<and> b_action b = Val ''delete''"
  then show "bulk_task now b d =
        (Inr (Tasks_Deleted (length ids)), filter (\<lambda>r. task_id r \<notin> set ids) d)"
    by (simp add: bulk_task_def for_each_delete)
next
  show "is_validation_error (fst (bulk_task now b d)) \<longleftrightarrow>
        b_taskIds b = Undefined \<or> b_taskIds b = Null \<or> b_taskIds b = Val []
        \<or> b_action b \<notin> {Val ''complete'', Val ''uncomplete'', Val ''delete''}"
    by (cases "b_taskIds b") (auto simp: bulk_task_def)
next
  assume "is_validation_error (fst (bulk_task now b d))"
  then show "snd (bulk_task now b d) = d"
    by (cases "b_taskIds b") (auto simp: bulk_task_def split: if_splits)
qed simp_all

theorem bulk_task_spec_witness:
  "b_taskIds complete_three = Val [''id-1'', ''id-2'', ''id-9''] \<and> [''id-1'', ''id-2'', ''id-9''] \<noteq> []
   \<and> b_action complete_three = Val ''complete''
   \<and> ''id-9'' \<notin> task_id ` set initialTasks
   \<and> bulk_task ''2026-01-03T09:00:00.000Z'' complete_three initialTasks =
       (Inr (Tasks_Updated 3),
        [task1\<lparr>completed := 1, updatedAt := ''2026-01-03T09:00:00.000Z''\<rparr>,
         task2\<lparr>completed := 1, updatedAt := ''2026-01-03T09:00:00.000Z''\<rparr>, task3])
   \<and> count (Tasks_Updated 3) = 3
   \<and> is_validation_error (fst (bulk_task ''2026-01-03T09:00:00.000Z''
        \<lparr>b_action = Val ''archive'', b_taskIds = Val [''id-1'']\<rparr> initialTasks))
   \<and> snd (bulk_task ''2026-01-03T09:00:00.000Z''
        \<lparr>b_action = Val ''archive'', b_taskIds = Val [''id-1'']\<rparr> initialTasks) = initialTasks"
  using bulk_task_spec [of complete_three "[''id-1'', ''id-2'', ''id-9'']" "''2026-01-03T09:00:00.000Z''" initialTasks]
    bulk_task_spec [of "\<lparr>b_action = Val ''archive'', b_taskIds = Val [''id-1'']\<rparr>" "[''id-1'']"
       "''2026-01-03T09:00:00.000Z''" initialTasks]
  by (simp add: complete_three_def initialTasks_def task1_def task2_def task3_def)

section \<open>List: the default order\<close>

lemma mset_insort_by: "mset (insort_by le x xs) = add_mset x (mset xs)"
  by (induction xs) auto

lemma mset_sort_by: "mset (sort_by le xs) = mset xs"
  by (induction xs) (auto simp: sort_by_def mset_insort_by)







lemma to_json_fields [simp]:
  "task_id (to_json r) = task_id r" "title (to_json r) = title r"
  "description (to_json r) = description r" "dueDate (to_json r) = dueDate r"
  "priority (to_json r) = priority r" "tags (to_json r) = tags r"
  "completed (to_json r) = Boolean (completed r)"
  "createdAt (to_json r) = createdAt r" "updatedAt (to_json r) = updatedAt r"
  "priority_rank (to_json r) = priority_rank r"
  by (simp_all add: to_json_def priority_rank_def)





section \<open>List: search\<close>

lemma like_percent: "like ''%'' t"
  by (induction t) auto

lemma like_prefix:
  "wildcard_free p \<Longrightarrow> like (p @ ''%'') t = starts_with_ci p t"
proof (induction p t rule: starts_with_ci.induct)
  case (1 t)
  show ?case using like_percent by simp
next
  case (2 c cs)
  then show ?case by (auto simp: wildcard_free_def)
next
  case (3 c cs x xs)
  then show ?case by (auto simp: wildcard_free_def)
qed

lemma like_contains_ci:
  assumes "wildcard_free s"
  shows "like (CHR ''%'' # s @ ''%'') t = contains_ci s t"
proof (induction t)
  case Nil
  have "like (CHR ''%'' # s @ ''%'') [] = like (s @ ''%'') []"
    by simp
  then show ?case
    using like_prefix [OF assms, of "[]"] by simp
next
  case (Cons x xs)
  have "like (CHR ''%'' # s @ ''%'') (x # xs)
          = (like (s @ ''%'') (x # xs) \<or> like (CHR ''%'' # s @ ''%'') xs)"
    by simp
  then show ?case
    using like_prefix [OF assms, of "x # xs"] Cons.IH by simp
qed

lemma sql_like_contains_ci:
  assumes "wildcard_free s" and "CHR 0x00 \<notin> set s"
  shows "sql_like (CHR ''%'' # s @ ''%'') t = contains_ci s (c_string t)"
proof -
  have "c_string (CHR ''%'' # s @ ''%'') = CHR ''%'' # s @ ''%''"
    using assms(2) by (auto simp: c_string_def takeWhile_append2)
  then show ?thesis
    by (simp add: sql_like_def like_contains_ci [OF assms(1)])
qed

lemma set_sort_by: "set (sort_by le xs) = set xs"
  using mset_sort_by [of le xs] by (metis set_mset_mset)

text \<open>
  For a search string without \<open>%\<close>, \<open>_\<close> and NUL, the pattern the handler builds matches
  exactly the texts that contain the string, up to the case of ASCII letters, before their
  first NUL, and List returns exactly the tasks whose title or description does.
\<close>

lemma get_tasks_search_wildcard_free:
  assumes "q_status q = None" and "q_priority q = None" and "q_search q = Some s"
    and "s \<noteq> []" and "wildcard_free s" and "CHR 0x00 \<notin> set s"
  shows "set (get_tasks q d)
           = to_json ` {r \<in> set d. contains_ci s (c_string (title r))
                                  \<or> contains_ci s (c_string (description r))}"
  using assms by (auto simp: get_tasks_def set_sort_by where_clause_def sql_like_contains_ci)

text \<open>
  C7, at a search string with a wildcard. The search \<open>_\<close> returns the three initial
  tasks, and no title or description of theirs contains an underscore: the handler
  passes the search string into the \<open>LIKE\<close> pattern as it is, where \<open>_\<close> stands for
  any one character and \<open>%\<close> for any run of characters.
\<close>

theorem get_tasks_search_underscore:
  "map task_id (get_tasks search_underscore initialTasks) = [''id-1'', ''id-2'', ''id-3'']
   \<and> \<not> contains_ci ''_'' (title task1) \<and> \<not> contains_ci ''_'' (description task1)
   \<and> \<not> contains_ci ''_'' (title task2) \<and> \<not> contains_ci ''_'' (description task2)
   \<and> \<not> contains_ci ''_'' (title task3) \<and> \<not> contains_ci ''_'' (description task3)"
  by (simp add: get_tasks_def search_underscore_def initialTasks_def task1_def task2_def task3_def
      where_clause_def order_by_def sort_by_def by_default_def dueDate_is_null_def priority_rank_def
      sql_like_def c_string_def to_lower_def)

section \<open>The hook: when the request is sent\<close>

lemma updateTaskData_changes_first:
  "tasks_at_request ts (fst (updateTaskData i updates answer fetched h))
     = Some (map (\<lambda>task. if has_id i task then task ++ updates else task) (h_tasks h))"
  by (cases answer) (simp_all add: updateTaskData_def Let_def split: prod.splits)

lemma toggleTaskCompletion_changes_first:
  "tasks_at_request ts (fst (toggleTaskCompletion i answer fetched h))
     = Some (map (\<lambda>task. if has_id i task then toggle_completed task else task) (h_tasks h))"
  by (cases answer) (simp_all add: toggleTaskCompletion_def Let_def split: prod.splits)

lemma removeTask_changes_first:
  "tasks_at_request ts (fst (removeTask i answer fetched h))
     = Some (filter (\<lambda>task. \<not> has_id i task) (h_tasks h))"
  by (cases answer) (simp_all add: removeTask_def Let_def split: prod.splits)

text \<open>
  C9, for add. When \<open>addTask\<close> sends the create request the local tasks are the ones
  it started with: the new task is prepended only after the request has succeeded, and
  it is the task of the server's answer; after a failed request the local tasks are
  unchanged. Update, toggle and delete change the local tasks before their request, as the
  three lemmas above say.
\<close>

theorem addTask_requests_first:
  "tasks_at_request (h_tasks h) (fst (addTask taskData created h)) = Some (h_tasks h)
   \<and> h_tasks (snd (addTask taskData (Inr newTask) h)) = newTask # h_tasks h
   \<and> h_tasks (snd (addTask taskData (Inl message) h)) = h_tasks h"
  by (cases created) (simp_all add: addTask_def Let_def)

end
